theory Spec2Isabelle
  imports Main
begin

section \<open>Python values, exceptions and dictionaries\<close>

text \<open>
  The credential payload, the issuer configuration and the claim values are JSON data.
  \<open>VTime\<close> is a timestamp as \<open>timezone.now()\<close> returns it, \<open>VObject\<close> an
  attribute that is not data (a bound method, the class object).
\<close>

datatype pyval =
    VNone
  | VBool bool
  | VInt int
  | VStr string
  | VTime nat
  | VList "pyval list"
  | VDict "(string \<times> pyval) list"
  | VObject string

text \<open>
  The exceptions that the modelled code raises or lets through. \<open>CredentialException\<close>
  is the program's own ingestion failure; the others are foreign to it. \<open>DoesNotExist\<close>
  and \<open>MultipleObjectsReturned\<close> carry the name of the queried model class,
  \<open>FieldError\<close> the query keyword that names no column, \<open>ValidationError\<close> the
  column that does not take the value it is given.
\<close>

datatype exn =
    CredentialException string
  | AttributeError string
  | KeyError string
  | IndexError string
  | TypeError string
  | ValueError string
  | DoesNotExist string
  | MultipleObjectsReturned string
  | FieldError string
  | ValidationError string
  | ExternalError string

definition bind_exn :: "exn + 'a \<Rightarrow> ('a \<Rightarrow> exn + 'b) \<Rightarrow> exn + 'b" where
  "bind_exn m f = (case m of Inl e \<Rightarrow> Inl e | Inr x \<Rightarrow> f x)"

text \<open>An \<open>except\<close> clause that re-raises: \<open>except_KeyError e e'\<close> is the exception
  that leaves a \<open>try\<close> block whose body raised \<open>e\<close> and whose handler for
  \<open>KeyError\<close> raises \<open>e'\<close>; any other exception passes through.\<close>

fun except_KeyError :: "exn \<Rightarrow> exn \<Rightarrow> exn" where
  "except_KeyError (KeyError k) e' = e'"
| "except_KeyError e e' = e"

fun except_AttributeError :: "exn \<Rightarrow> exn \<Rightarrow> exn" where
  "except_AttributeError (AttributeError m) e' = e'"
| "except_AttributeError e e' = e"

fun except_DoesNotExist :: "string \<Rightarrow> exn \<Rightarrow> exn \<Rightarrow> exn" where
  "except_DoesNotExist model (DoesNotExist m) e' = (if m = model then e' else DoesNotExist m)"
| "except_DoesNotExist model e e' = e"

text \<open>A dictionary keeps insertion order: an association list, read at the first entry
  of a key and written in place (a new key goes to the end).\<close>

definition dict_get :: "(string \<times> 'v) list \<Rightarrow> string \<Rightarrow> 'v option" where
  "dict_get d k = map_of d k"

fun dict_set :: "(string \<times> 'v) list \<Rightarrow> string \<Rightarrow> 'v \<Rightarrow> (string \<times> 'v) list" where
  "dict_set [] k v = [(k, v)]"
| "dict_set (p # ps) k v = (if fst p = k then (k, v) # ps else p # dict_set ps k v)"

definition dict_keys :: "(string \<times> 'v) list \<Rightarrow> string list" where
  "dict_keys d = map fst d"

text \<open>\<open>d[k]\<close> on a value: \<open>KeyError\<close> on a missing key, \<open>TypeError\<close> when the value
  is not a dictionary.\<close>

fun subscript :: "pyval \<Rightarrow> string \<Rightarrow> exn + pyval" where
  "subscript (VDict d) k = (case dict_get d k of None \<Rightarrow> Inl (KeyError k) | Some v \<Rightarrow> Inr v)"
| "subscript _ k = Inl (TypeError ''object is not subscriptable with a string key'')"

text \<open>\<open>for x in v\<close>: a dictionary yields its keys, a list its elements, a string its
  characters; nothing else among the values is iterable.\<close>

fun py_iter :: "pyval \<Rightarrow> exn + pyval list" where
  "py_iter (VDict d) = Inr (map VStr (dict_keys d))"
| "py_iter (VList xs) = Inr xs"
| "py_iter (VStr s) = Inr (map (\<lambda>c. VStr [c]) s)"
| "py_iter v = Inl (TypeError ''object is not iterable'')"

text \<open>
  The element of a sequence at an integer position, as Python counts positions: from the
  front starting at 0, or from the back starting at -1; no element outside these.
\<close>

definition item_at :: "'a list \<Rightarrow> int \<Rightarrow> 'a option" where
  "item_at xs i =
     (if 0 \<le> i \<and> i < int (length xs) then Some (xs ! nat i)
      else if i < 0 \<and> - int (length xs) \<le> i then Some (xs ! nat (int (length xs) + i))
      else None)"

text \<open>\<open>v[i]\<close> for an integer \<open>i\<close>.\<close>

definition index_item :: "pyval \<Rightarrow> int \<Rightarrow> exn + pyval" where
  "index_item v i =
     (case v of
        VList xs \<Rightarrow>
          (case item_at xs i of
             Some x \<Rightarrow> Inr x
           | None \<Rightarrow> Inl (IndexError ''list index out of range''))
      | VStr s \<Rightarrow>
          (case item_at s i of
             Some c \<Rightarrow> Inr (VStr [c])
           | None \<Rightarrow> Inl (IndexError ''string index out of range''))
      | VDict d \<Rightarrow> Inl (KeyError ''integer key'')
      | _ \<Rightarrow> Inl (TypeError ''object is not subscriptable''))"

text \<open>\<open>v[k]\<close> for any key \<open>k\<close>. The dictionaries of the model have string keys, so any
  other hashable key is missing from them; a list or a dictionary is not hashable.\<close>

definition getitem :: "pyval \<Rightarrow> pyval \<Rightarrow> exn + pyval" where
  "getitem v k =
     (case k of
        VStr name \<Rightarrow> subscript v name
      | VInt i \<Rightarrow> index_item v i
      | VBool b \<Rightarrow> index_item v (if b then 1 else 0)
      | _ \<Rightarrow>
          (case v of
             VDict d \<Rightarrow>
               (case k of
                  VList xs \<Rightarrow> Inl (TypeError ''unhashable type'')
                | VDict e \<Rightarrow> Inl (TypeError ''unhashable type'')
                | _ \<Rightarrow> Inl (KeyError ''key that is not a string''))
           | VList xs \<Rightarrow> Inl (TypeError ''list indices must be integers or slices'')
           | VStr t \<Rightarrow> Inl (TypeError ''string indices must be integers'')
           | _ \<Rightarrow> Inl (TypeError ''object is not subscriptable'')))"

definition quoted :: "string \<Rightarrow> string" where
  "quoted s = [CHR 0x27] @ s @ [CHR 0x27]"

fun join :: "string \<Rightarrow> string list \<Rightarrow> string" where
  "join sep [] = []"
| "join sep [x] = x"
| "join sep (x # y # ys) = x @ sep @ join sep (y # ys)"

text \<open>\<open>sep.join(xs)\<close> on a list of values: every item has to be a string.\<close>

fun the_strings :: "pyval list \<Rightarrow> string list option" where
  "the_strings [] = Some []"
| "the_strings (VStr s # xs) = map_option (\<lambda>ss. s # ss) (the_strings xs)"
| "the_strings (x # xs) = None"

definition py_join :: "string \<Rightarrow> pyval list \<Rightarrow> exn + string" where
  "py_join sep xs =
     (case the_strings xs of
        Some ss \<Rightarrow> Inr (join sep ss)
      | None \<Rightarrow> Inl (TypeError ''sequence item: expected str instance''))"

section \<open>External collaborators\<close>

text \<open>
  What the modelled code calls and this repository does not define:
  \<^item> \<open>schema_key\<close> of \<open>von_agent.util\<close>, which splits a schema identifier into origin did,
    name and version (the identifier of a received credential is well-formed, so the parser
    is taken total);
  \<^item> \<open>json.dumps\<close>;
  \<^item> \<open>import_module\<close> below \<open>api_v2.processor\<close>: a module path gives, when the module
    exists, its attributes by name (a processor function may raise);
  \<^item> the wallet holder's \<open>store_cred\<close>, given the legal entity id, the credential and the
    credential definition metadata (both as JSON text);
  \<^item> the clock \<open>timezone.now()\<close>, read as one instant for the whole call.
\<close>

record SchemaKey =
  key_origin_did :: string
  key_name :: string
  key_version :: string

text \<open>
  Modelled from the spec: the model classes \<open>Name\<close>, \<open>Address\<close>, \<open>Person\<close> and
  \<open>Contact\<close> of \<open>api_v2.models\<close> are not among the sources. \<open>model_columns\<close> gives the
  columns that the class of a kind declares besides \<open>id\<close>, \<open>create_timestamp\<close> and
  \<open>end_date\<close>, which the code uses on every kind; \<open>column_accepts\<close> says which values
  a column of a kind takes (its type, its length, whether it may be null).
\<close>

datatype model_kind = Name | Address | Person | Contact

record model_classes =
  model_columns :: "model_kind \<Rightarrow> string list"
  column_accepts :: "model_kind \<Rightarrow> string \<Rightarrow> pyval \<Rightarrow> bool"

record env = model_classes +
  schema_key :: "pyval \<Rightarrow> SchemaKey"
  json_dumps :: "pyval \<Rightarrow> string"
  import_module :: "string \<Rightarrow> (string \<Rightarrow> (pyval \<Rightarrow> exn + pyval) option) option"
  store_cred :: "string \<Rightarrow> string \<Rightarrow> string \<Rightarrow> exn option"
  timezone_now :: nat

section \<open>The decoded credential (class \<open>Credential\<close>)\<close>

text \<open>The instance attributes \<open>self._raw\<close>, \<open>self._schema_id\<close>, ... are the fields
  \<open>priv_raw\<close>, \<open>priv_schema_id\<close>, ... of the record.\<close>

record Credential =
  priv_raw :: pyval
  priv_schema_id :: pyval
  priv_cred_def_id :: pyval
  priv_rev_reg_id :: pyval
  priv_signature :: pyval
  priv_signature_correctness_proof :: pyval
  priv_rev_reg :: pyval
  priv_witness :: pyval
  priv_claim_attributes :: "pyval list"

definition Credential_init :: "pyval \<Rightarrow> exn + Credential" where
  "Credential_init credential_data =
     bind_exn (subscript credential_data ''schema_id'') (\<lambda>schema_id.
     bind_exn (subscript credential_data ''cred_def_id'') (\<lambda>cred_def_id.
     bind_exn (subscript credential_data ''rev_reg_id'') (\<lambda>rev_reg_id.
     bind_exn (subscript credential_data ''signature'') (\<lambda>signature.
     bind_exn (subscript credential_data ''signature_correctness_proof'') (\<lambda>proof.
     bind_exn (subscript credential_data ''rev_reg'') (\<lambda>rev_reg.
     bind_exn (subscript credential_data ''witness'') (\<lambda>witness.
     bind_exn (subscript credential_data ''values'') (\<lambda>claim_data.
     bind_exn (py_iter claim_data) (\<lambda>claim_attributes.
       Inr \<lparr> priv_raw = credential_data,
             priv_schema_id = schema_id,
             priv_cred_def_id = cred_def_id,
             priv_rev_reg_id = rev_reg_id,
             priv_signature = signature,
             priv_signature_correctness_proof = proof,
             priv_rev_reg = rev_reg,
             priv_witness = witness,
             priv_claim_attributes = claim_attributes \<rparr>)))))))))"

text \<open>The method \<open>__getattr__\<close>: the claim's raw value, a \<open>KeyError\<close> of any of the
  three subscripts turned into \<open>AttributeError\<close>.\<close>

definition Credential_getattr :: "Credential \<Rightarrow> string \<Rightarrow> exn + pyval" where
  "Credential_getattr self name =
     (case bind_exn (subscript (priv_raw self) ''values'') (\<lambda>vs.
           bind_exn (subscript vs name) (\<lambda>claim. subscript claim ''raw'')) of
        Inl e \<Rightarrow>
          Inl (except_KeyError e
                (AttributeError
                  (quoted ''Credential'' @ '' object has no attribute '' @ quoted name)))
      | Inr claim_value \<Rightarrow> Inr claim_value)"

text \<open>The attributes that ordinary lookup finds on an instance: the instance attributes
  set by \<open>__init__\<close>, the six properties of the class, and what the class has or inherits
  from \<open>object\<close>.\<close>

definition inherited_members :: "string list" where
  "inherited_members =
     [''__init__'', ''__getattr__'', ''__class__'', ''__dict__'', ''__doc__'', ''__module__'',
      ''__weakref__'', ''__delattr__'', ''__dir__'', ''__eq__'', ''__format__'', ''__ge__'',
      ''__getattribute__'', ''__gt__'', ''__hash__'', ''__init_subclass__'', ''__le__'',
      ''__lt__'', ''__ne__'', ''__new__'', ''__reduce__'', ''__reduce_ex__'', ''__repr__'',
      ''__setattr__'', ''__sizeof__'', ''__str__'', ''__subclasshook__'']"

definition Credential_members :: "env \<Rightarrow> Credential \<Rightarrow> (string \<times> pyval) list" where
  "Credential_members env self =
     [(''_raw'', priv_raw self),
      (''_schema_id'', priv_schema_id self),
      (''_cred_def_id'', priv_cred_def_id self),
      (''_rev_reg_id'', priv_rev_reg_id self),
      (''_signature'', priv_signature self),
      (''_signature_correctness_proof'', priv_signature_correctness_proof self),
      (''_rev_reg'', priv_rev_reg self),
      (''_witness'', priv_witness self),
      (''_claim_attributes'', VList (priv_claim_attributes self)),
      (''raw'', priv_raw self),
      (''json'', VStr (json_dumps env (priv_raw self))),
      (''origin_did'', VStr (key_origin_did (schema_key env (priv_schema_id self)))),
      (''schema_name'', VStr (key_name (schema_key env (priv_schema_id self)))),
      (''schema_version'', VStr (key_version (schema_key env (priv_schema_id self)))),
      (''claim_attributes'', VList (priv_claim_attributes self))]
     @ map (\<lambda>n. (n, VObject n)) inherited_members"

text \<open>\<open>getattr(credential, name)\<close>: Python calls \<open>__getattr__\<close> only when ordinary
  lookup finds nothing.\<close>

definition getattr :: "env \<Rightarrow> Credential \<Rightarrow> string \<Rightarrow> exn + pyval" where
  "getattr env self name =
     (case dict_get (Credential_members env self) name of
        Some v \<Rightarrow> Inr v
      | None \<Rightarrow> Credential_getattr self name)"

text \<open>\<open>getattr\<close> with a name that is any value: the name has to be a string.\<close>

definition py_getattr :: "env \<Rightarrow> Credential \<Rightarrow> pyval \<Rightarrow> exn + pyval" where
  "py_getattr env self name =
     (case name of
        VStr n \<Rightarrow> getattr env self n
      | _ \<Rightarrow> Inl (TypeError ''getattr(): attribute name must be string''))"

section \<open>Issuer configuration and the application database\<close>

text \<open>A field of a rule of the processor configuration: the keys \<open>input\<close>, \<open>from\<close>
  and \<open>processor\<close> of the JSON object, each of which may be missing. A rule
  (\<open>model_mapper\<close>) has the keys \<open>model\<close>, \<open>fields\<close> and \<open>cardinality_fields\<close>.\<close>

record field_data =
  fd_input :: "pyval option"
  fd_from :: "string option"
  fd_processor :: "string list option"

record model_mapper =
  mm_model :: "string option"
  mm_fields :: "(string \<times> field_data) list option"
  mm_cardinality_fields :: "string list option"

definition SUPPORTED_MODELS_MAPPING :: "(string \<times> model_kind) list" where
  "SUPPORTED_MODELS_MAPPING =
     [(''name'', Name), (''address'', Address), (''person'', Person), (''contact'', Contact)]"

definition PROCESSOR_FUNCTION_BASE_PATH :: string where
  "PROCESSOR_FUNCTION_BASE_PATH = ''api_v2.processor''"

text \<open>
  Modelled from the spec: the classes \<open>Issuer\<close>, \<open>Schema\<close>, \<open>CredentialType\<close>,
  \<open>Subject\<close>, \<open>Credential\<close> and \<open>Claim\<close> of \<open>api_v2.models\<close> are not among the
  sources. A row has its primary key and the columns that the modelled code reads or
  writes; a foreign key is the primary key of the row it refers to.
\<close>

record Issuer =
  issuer_id :: nat
  issuer_did :: string

record Schema =
  schema_id :: nat
  schema_origin_did :: string
  schema_name :: string
  schema_version :: string

record CredentialType =
  credential_type_id :: nat
  ct_schema :: nat
  ct_issuer :: nat
  source_claim :: string
  processor_config :: "model_mapper list option"

record Subject =
  subject_id :: nat
  source_id :: pyval

record CredentialRow =
  credential_id :: nat
  credential_subject :: nat
  credential_credential_type :: nat

record Claim =
  claim_credential :: nat
  claim_name :: string
  claim_value :: pyval

text \<open>
  Modelled from the spec: the model classes \<open>Name\<close>, \<open>Address\<close>, \<open>Person\<close> and
  \<open>Contact\<close> of \<open>api_v2.models\<close> are not among the sources. A record of one of them is
  its attribute dictionary (\<open>id\<close>, \<open>create_timestamp\<close>, \<open>end_date\<close> and the columns of
  the kind), which is what \<open>setattr\<close> writes and \<open>filter\<close> reads, together with the
  credentials it is associated with (the many-to-many relation \<open>credentials\<close>). A record
  with a null \<open>end_date\<close> is current.
\<close>

record model_row =
  attrs :: "(string \<times> pyval) list"
  row_credentials :: "nat list"

record db =
  issuers :: "Issuer list"
  schemas :: "Schema list"
  credential_types :: "CredentialType list"
  subjects :: "Subject list"
  credentials :: "CredentialRow list"
  claims :: "Claim list"
  models :: "model_kind \<Rightarrow> model_row list"

text \<open>\<open>Model.objects.get(...)\<close>: exactly one row, or one of the two exceptions.\<close>

definition objects_get :: "string \<Rightarrow> ('a \<Rightarrow> bool) \<Rightarrow> 'a list \<Rightarrow> exn + 'a" where
  "objects_get model p rows =
     (case filter p rows of
        [] \<Rightarrow> Inl (DoesNotExist model)
      | [x] \<Rightarrow> Inr x
      | _ \<Rightarrow> Inl (MultipleObjectsReturned model))"

text \<open>An automatically assigned primary key: one more than the largest in use.\<close>

definition next_id :: "nat list \<Rightarrow> nat" where
  "next_id ids = Suc (fold max ids 0)"

section \<open>The value transform pipeline\<close>

text \<open>\<open>s.rsplit(".", 1)\<close>: split at the last dot, if there is one.\<close>

definition rsplit_dot :: "string \<Rightarrow> string list" where
  "rsplit_dot s =
     (if CHR ''.'' \<in> set s
      then [rev (tl (dropWhile (\<lambda>c. c \<noteq> CHR ''.'') (rev s))),
            rev (takeWhile (\<lambda>c. c \<noteq> CHR ''.'') (rev s))]
      else [s])"

text \<open>The base value of a field: the literal \<open>input\<close>, or the claim it names.\<close>

definition base_value :: "env \<Rightarrow> Credential \<Rightarrow> field_data \<Rightarrow> exn + pyval" where
  "base_value env credential field_data =
     (case (fd_input field_data, fd_from field_data) of
        (Some input, Some from) \<Rightarrow>
          if from = ''value'' then Inr input
          else if from = ''claim'' then py_getattr env credential input
          else Inl (CredentialException
                 (''Supported field from values are '' @ quoted ''value'' @ '' and ''
                   @ quoted ''claim'' @ '' but received '' @ quoted from))
      | _ \<Rightarrow> Inl (CredentialException
                 (''Every field must specify '' @ quoted ''input'' @ '' and ''
                   @ quoted ''from'' @ '' values.'')))"

text \<open>The loop that resolves the dotted names of \<open>processor\<close> and appends each function
  to \<open>pipeline\<close>.\<close>

fun build_pipeline ::
  "env \<Rightarrow> string list \<Rightarrow> (pyval \<Rightarrow> exn + pyval) list \<Rightarrow> exn + (pyval \<Rightarrow> exn + pyval) list"
where
  "build_pipeline env [] pipeline = Inr pipeline"
| "build_pipeline env (function_path_with_name # rest) pipeline =
     (case rsplit_dot function_path_with_name of
        [function_path, function_name] \<Rightarrow>
          (case import_module env (PROCESSOR_FUNCTION_BASE_PATH @ ''.'' @ function_path) of
             None \<Rightarrow>
               Inl (CredentialException (''No processor module named '' @ quoted function_path))
           | Some function_module \<Rightarrow>
               (case function_module function_name of
                  None \<Rightarrow>
                    Inl (CredentialException
                      (''Module '' @ quoted function_path @ '' has no function ''
                        @ quoted function_name @ ''.''))
                | Some function \<Rightarrow> build_pipeline env rest (pipeline @ [function])))
      | _ \<Rightarrow> Inl (ValueError ''not enough values to unpack (expected 2, got 1)''))"

text \<open>\<open>while len(pipeline) > 0: function = pipeline.pop(); field_value =
  function(field_value)\<close>: \<open>pop\<close> takes the last element.\<close>

function run_pipeline :: "(pyval \<Rightarrow> exn + pyval) list \<Rightarrow> pyval \<Rightarrow> exn + pyval" where
  "run_pipeline pipeline field_value =
     (if length pipeline > 0
      then (case (last pipeline) field_value of
              Inl e \<Rightarrow> Inl e
            | Inr v \<Rightarrow> run_pipeline (butlast pipeline) v)
      else Inr field_value)"
  by pat_completeness auto
termination
  by (relation "measure (\<lambda>(pipeline, field_value). length pipeline)") auto

declare run_pipeline.simps [simp del]

definition field_value :: "env \<Rightarrow> Credential \<Rightarrow> field_data \<Rightarrow> exn + pyval" where
  "field_value env credential field_data =
     bind_exn (base_value env credential field_data) (\<lambda>v.
       case fd_processor field_data of
         None \<Rightarrow> Inr v
       | Some processor \<Rightarrow>
           bind_exn (build_pipeline env processor []) (\<lambda>pipeline.
             run_pipeline (rev pipeline) v))"

text \<open>The loop over the fields of one rule, filling \<open>processed_values\<close>; the string
  \<open>"None"\<close> is replaced by \<open>None\<close> after the value has been stored.\<close>

definition store_processed ::
  "(string \<times> pyval) list \<Rightarrow> string \<Rightarrow> pyval \<Rightarrow> (string \<times> pyval) list" where
  "store_processed processed_values field v =
     (let processed_values' = dict_set processed_values field v
      in if dict_get processed_values' field = Some (VStr ''None'')
         then dict_set processed_values' field VNone
         else processed_values')"

fun process_fields ::
  "env \<Rightarrow> Credential \<Rightarrow> (string \<times> field_data) list \<Rightarrow> (string \<times> pyval) list
     \<Rightarrow> exn + (string \<times> pyval) list"
where
  "process_fields env credential [] processed_values = Inr processed_values"
| "process_fields env credential ((field, field_data) # rest) processed_values =
     (case field_value env credential field_data of
        Inl e \<Rightarrow> Inl e
      | Inr v \<Rightarrow>
          process_fields env credential rest (store_processed processed_values field v))"

section \<open>The versioned upsert\<close>

text \<open>The exception raised for a cardinality field that has no processed value.\<close>

definition cardinality_error :: "string \<Rightarrow> (string \<times> pyval) list \<Rightarrow> exn" where
  "cardinality_error cardinality_field processed_values =
     CredentialException
       (''Issuer configuration specifies field '' @ quoted cardinality_field @ '' ''
         @ ''in cardinality_fields value does not exist in ''
         @ ''credential processor. Values are: ''
         @ join '', '' (dict_keys processed_values))"

text \<open>The loop over \<open>cardinality_fields\<close> that extends the query arguments.\<close>

fun build_model_args ::
  "(string \<times> pyval) list \<Rightarrow> string list \<Rightarrow> (string \<times> pyval) list
     \<Rightarrow> exn + (string \<times> pyval) list"
where
  "build_model_args processed_values [] model_args = Inr model_args"
| "build_model_args processed_values (cardinality_field # rest) model_args =
     (case dict_get processed_values cardinality_field of
        None \<Rightarrow> Inl (cardinality_error cardinality_field processed_values)
      | Some v \<Rightarrow>
          build_model_args processed_values rest (dict_set model_args cardinality_field v))"

text \<open>The columns of a kind: the three that the code uses on every kind, and those that
  the class declares.\<close>

definition lifecycle_columns :: "string list" where
  "lifecycle_columns = [''id'', ''create_timestamp'', ''end_date'']"

definition is_column :: "env \<Rightarrow> model_kind \<Rightarrow> string \<Rightarrow> bool" where
  "is_column env kind name =
     (name \<in> set lifecycle_columns \<or> name \<in> set (model_columns env kind))"

text \<open>
  \<open>Model.objects.filter(**model_args)\<close>. A keyword is resolved when the query is built:
  \<open>credentials__subject__id\<close> goes through the relation to the credentials, \<open>pk\<close> is
  the primary key \<open>id\<close>, a column is compared with the value, which the column has to
  take; anything else is a \<open>FieldError\<close> (the lookup suffixes of Django, as in
  \<open>email__iexact\<close>, are not modelled). \<open>lookup_error\<close> is the exception that one
  keyword raises, if any.
\<close>

definition lookup_error :: "env \<Rightarrow> model_kind \<Rightarrow> string \<times> pyval \<Rightarrow> exn option" where
  "lookup_error env kind kv =
     (case kv of (k, v) \<Rightarrow>
        if k = ''credentials__subject__id'' then None
        else if k = ''pk''
        then (if column_accepts env kind ''id'' v then None else Some (ValidationError ''id''))
        else if is_column env kind k
        then (if column_accepts env kind k v then None else Some (ValidationError k))
        else Some (FieldError k))"

text \<open>
  The rows that a resolved query selects: every argument holds of the row. For
  \<open>credentials__subject__id\<close> some credential of the row belongs to that subject; a
  column is compared with the row's value (\<open>None\<close> matches a null column).
\<close>

definition row_matches ::
  "CredentialRow list \<Rightarrow> (string \<times> pyval) list \<Rightarrow> model_row \<Rightarrow> bool" where
  "row_matches creds model_args r =
     list_all (\<lambda>(k, v).
        if k = ''credentials__subject__id''
        then list_ex (\<lambda>c. list_ex (\<lambda>cr. credential_id cr = c
                                     \<and> VInt (int (credential_subject cr)) = v) creds)
               (row_credentials r)
        else if k = ''pk'' then dict_get (attrs r) ''id'' = Some v
        else dict_get (attrs r) k = Some v) model_args"

definition objects_filter ::
  "env \<Rightarrow> model_kind \<Rightarrow> CredentialRow list \<Rightarrow> (string \<times> pyval) list \<Rightarrow> model_row list
     \<Rightarrow> exn + model_row list" where
  "objects_filter env kind creds model_args table =
     (case List.map_filter (lookup_error env kind) model_args of
        e # es \<Rightarrow> Inl e
      | [] \<Rightarrow> Inr (filter (row_matches creds model_args) table))"

definition row_pk :: "model_row \<Rightarrow> pyval option" where
  "row_pk r = dict_get (attrs r) ''id''"

definition create_timestamp_of :: "model_row \<Rightarrow> int" where
  "create_timestamp_of r =
     (case dict_get (attrs r) ''create_timestamp'' of Some (VTime t) \<Rightarrow> int t | _ \<Rightarrow> 0)"

text \<open>\<open>.order_by("-create_timestamp").distinct()\<close>: every matching row once, the most
  recently created first (rows of equal timestamp in table order).\<close>

definition order_by_create_timestamp_desc :: "model_row list \<Rightarrow> model_row list" where
  "order_by_create_timestamp_desc rows = sort_key (\<lambda>r. - create_timestamp_of r) rows"

text \<open>
  Modelled from the spec: an instance of a model class that is not among the sources.
  The Python object holds the values of the columns (\<open>inst_attrs\<close>) and, apart from
  them, whatever attributes have been set on the object itself (\<open>inst_dict\<close>), which the
  database never sees. \<open>Model()\<close> is a fresh instance: it has no primary key yet and is
  current (a null \<open>end_date\<close>). \<open>instance_of\<close> is the instance that a query returns for
  a row.
\<close>

record model_instance =
  inst_attrs :: "(string \<times> pyval) list"
  inst_dict :: "(string \<times> pyval) list"

definition Model_new :: model_instance where
  "Model_new = \<lparr> inst_attrs = [(''id'', VNone), (''end_date'', VNone)], inst_dict = [] \<rparr>"

definition instance_of :: "model_row \<Rightarrow> model_instance" where
  "instance_of r = \<lparr> inst_attrs = attrs r, inst_dict = [] \<rparr>"

text \<open>
  \<open>setattr(model, name, v)\<close>: \<open>pk\<close> is a property that writes the primary key;
  \<open>credentials\<close> is the many-to-many relation, which refuses assignment; a column takes
  the value; any other name becomes an attribute of the object, hiding the method or the
  internal attribute of that name if there is one.
\<close>

definition setattr_model ::
  "env \<Rightarrow> model_kind \<Rightarrow> model_instance \<Rightarrow> string \<Rightarrow> pyval \<Rightarrow> exn + model_instance" where
  "setattr_model env kind model name v =
     (if name = ''pk''
      then Inr (model\<lparr>inst_attrs := dict_set (inst_attrs model) ''id'' v\<rparr>)
      else if name = ''credentials''
      then Inl (TypeError ''Direct assignment to the forward side of a many-to-many set is prohibited. Use credentials.set() instead.'')
      else if is_column env kind name
      then Inr (model\<lparr>inst_attrs := dict_set (inst_attrs model) name v\<rparr>)
      else Inr (model\<lparr>inst_dict := dict_set (inst_dict model) name v\<rparr>))"

text \<open>\<open>for value in processed_values: setattr(model, value, processed_values[value])\<close>.\<close>

fun setattr_all ::
  "env \<Rightarrow> model_kind \<Rightarrow> (string \<times> pyval) list \<Rightarrow> string list \<Rightarrow> model_instance
     \<Rightarrow> exn + model_instance"
where
  "setattr_all env kind processed_values [] model = Inr model"
| "setattr_all env kind processed_values (value # rest) model =
     (case dict_get processed_values value of
        None \<Rightarrow> Inl (KeyError value)
      | Some v \<Rightarrow>
          (case setattr_model env kind model value v of
             Inl e \<Rightarrow> Inl e
           | Inr model' \<Rightarrow> setattr_all env kind processed_values rest model'))"

definition pk_int :: "model_row \<Rightarrow> int" where
  "pk_int r = (case row_pk r of Some (VInt n) \<Rightarrow> n | _ \<Rightarrow> 0)"

definition next_pk :: "model_row list \<Rightarrow> pyval" where
  "next_pk table = VInt (1 + fold max (map pk_int table) 0)"

text \<open>The methods that \<open>save()\<close> calls on the instance, itself included, and the internal
  attributes that it reads.\<close>

definition save_methods :: "string list" where
  "save_methods =
     [''save'', ''save_base'', ''get_deferred_fields'', ''_save_parents'', ''_save_table'',
      ''_get_pk_val'', ''_do_update'', ''_do_insert'']"

definition save_internals :: "string list" where
  "save_internals = [''_state'', ''_meta'']"

text \<open>The first column value of the instance that its column does not take; a null
  primary key is left to the database.\<close>

definition rejected_column :: "env \<Rightarrow> model_kind \<Rightarrow> model_instance \<Rightarrow> string option" where
  "rejected_column env kind model =
     map_option fst
       (find (\<lambda>(k, v). \<not> (k = ''id'' \<and> v = VNone) \<and> \<not> column_accepts env kind k v)
          (inst_attrs model))"

definition insert_row :: "env \<Rightarrow> pyval \<Rightarrow> model_instance \<Rightarrow> model_row list \<Rightarrow> model_row list"
where
  "insert_row env pk model table =
     table @ [\<lparr> attrs = dict_set (dict_set (inst_attrs model) ''id'' pk)
                          ''create_timestamp'' (VTime (timezone_now env)),
                row_credentials = [] \<rparr>]"

text \<open>
  \<open>model.save()\<close>. When an attribute set on the object hides \<open>save\<close> or a method that
  \<open>save\<close> calls, the call is a call of a value that is no method (\<open>TypeError\<close>); when it
  hides an internal attribute, reading through it fails (\<open>AttributeError\<close>). Otherwise
  the column values are validated; then an instance whose primary key is that of a stored
  row overwrites the column values of that row, and any other instance is inserted, with a
  new primary key when it has none, created now. The result is the primary key and the
  table.
\<close>

definition save ::
  "env \<Rightarrow> model_kind \<Rightarrow> model_instance \<Rightarrow> model_row list \<Rightarrow> exn + pyval \<times> model_row list"
where
  "save env kind model table =
     (if list_ex (\<lambda>n. n \<in> set save_methods) (dict_keys (inst_dict model))
      then Inl (TypeError ''object is not callable'')
      else if list_ex (\<lambda>n. n \<in> set save_internals) (dict_keys (inst_dict model))
      then Inl (AttributeError ''object has no such attribute'')
      else case rejected_column env kind model of
             Some k \<Rightarrow> Inl (ValidationError k)
           | None \<Rightarrow>
               (case dict_get (inst_attrs model) ''id'' of
                  None \<Rightarrow> Inr (next_pk table, insert_row env (next_pk table) model table)
                | Some pk \<Rightarrow>
                    if pk = VNone
                    then Inr (next_pk table, insert_row env (next_pk table) model table)
                    else if list_ex (\<lambda>r. row_pk r = Some pk) table
                    then Inr (pk, map (\<lambda>r. if row_pk r = Some pk
                                            then r\<lparr>attrs := inst_attrs model\<rparr> else r) table)
                    else Inr (pk, insert_row env pk model table)))"

text \<open>\<open>model.credentials.add(credential)\<close>.\<close>

definition credentials_add :: "pyval \<Rightarrow> nat \<Rightarrow> model_row list \<Rightarrow> model_row list" where
  "credentials_add pk cid table =
     map (\<lambda>r. if row_pk r = Some pk \<and> cid \<notin> set (row_credentials r)
              then r\<lparr>row_credentials := row_credentials r @ [cid]\<rparr> else r) table"

text \<open>\<open>query.exclude(pk=model.id).update(end_date=timezone.now())\<close>, for the row
  \<open>model\<close> that the query returned first.\<close>

definition end_date_others ::
  "env \<Rightarrow> CredentialRow list \<Rightarrow> (string \<times> pyval) list \<Rightarrow> model_row \<Rightarrow> model_row list
     \<Rightarrow> model_row list" where
  "end_date_others env creds model_args model table =
     map (\<lambda>r. if row_matches creds model_args r \<and> row_pk r \<noteq> row_pk model
              then r\<lparr>attrs := dict_set (attrs r) ''end_date'' (VTime (timezone_now env))\<rparr>
              else r) table"

text \<open>
  The second half of the body of the loop over the rules: look the current record up by
  subject and cardinality values, retire the other matches, write the processed values to
  the most recent match (or to a new record), save it and associate it with the credential.
  The code opens no transaction: an exception of \<open>setattr\<close> or \<open>save\<close> leaves the other
  matches retired.
\<close>

definition upsert_model ::
  "env \<Rightarrow> model_kind \<Rightarrow> Subject \<Rightarrow> CredentialRow \<Rightarrow> (string \<times> pyval) list \<Rightarrow> string list
     \<Rightarrow> db \<Rightarrow> (exn + unit) \<times> db" where
  "upsert_model env Model subject credential processed_values cardinality_fields d =
     (case build_model_args processed_values cardinality_fields
             [(''credentials__subject__id'', VInt (int (subject_id subject))),
              (''end_date'', VNone)] of
        Inl e \<Rightarrow> (Inl e, d)
      | Inr model_args \<Rightarrow>
          (case objects_filter env Model (credentials d) model_args (models d Model) of
             Inl e \<Rightarrow> (Inl e, d)
           | Inr rows \<Rightarrow>
               let table = models d Model;
                   query = order_by_create_timestamp_desc rows;
                   found = (case query of
                              [] \<Rightarrow> (Model_new, table)
                            | model # others \<Rightarrow>
                                (instance_of model,
                                 end_date_others env (credentials d) model_args model table));
                   d1 = d\<lparr>models := (models d)(Model := snd found)\<rparr>
               in case setattr_all env Model processed_values (dict_keys processed_values)
                         (fst found) of
                    Inl e \<Rightarrow> (Inl e, d1)
                  | Inr model \<Rightarrow>
                      (case save env Model model (snd found) of
                         Inl e \<Rightarrow> (Inl e, d1)
                       | Inr saved \<Rightarrow>
                           (Inr (), d\<lparr>models := (models d)(Model :=
                              credentials_add (fst saved) (credential_id credential)
                                (snd saved))\<rparr>))))"

section \<open>\<open>CredentialManager\<close>\<close>

record CredentialManager =
  credential :: Credential
  credential_definition_metadata :: pyval

text \<open>The body of the loop over the rules of the processor configuration.\<close>

definition apply_model_mapper ::
  "env \<Rightarrow> Credential \<Rightarrow> Subject \<Rightarrow> CredentialRow \<Rightarrow> model_mapper \<Rightarrow> db \<Rightarrow> (exn + unit) \<times> db"
where
  "apply_model_mapper env cred subject cred_row model_mapper d =
     (case mm_model model_mapper of
        None \<Rightarrow> (Inl (KeyError ''model''), d)
      | Some model_name \<Rightarrow>
          let cardinality_fields =
                (case mm_cardinality_fields model_mapper of None \<Rightarrow> [] | Some cfs \<Rightarrow> cfs)
          in case dict_get SUPPORTED_MODELS_MAPPING model_name of
               None \<Rightarrow>
                 (Inl (CredentialException (''Unsupported model type '' @ quoted model_name)), d)
             | Some Model \<Rightarrow>
                 (case mm_fields model_mapper of
                    None \<Rightarrow> (Inl (KeyError ''fields''), d)
                  | Some flds \<Rightarrow>
                      (case process_fields env cred flds [] of
                         Inl e \<Rightarrow> (Inl e, d)
                       | Inr processed_values \<Rightarrow>
                           upsert_model env Model subject cred_row processed_values
                             cardinality_fields d)))"

fun apply_processor_config ::
  "env \<Rightarrow> Credential \<Rightarrow> Subject \<Rightarrow> CredentialRow \<Rightarrow> model_mapper list \<Rightarrow> db
     \<Rightarrow> (exn + unit) \<times> db"
where
  "apply_processor_config env cred subject cred_row [] d = (Inr (), d)"
| "apply_processor_config env cred subject cred_row (model_mapper # rest) d =
     (case apply_model_mapper env cred subject cred_row model_mapper d of
        (Inl e, d') \<Rightarrow> (Inl e, d')
      | (Inr u, d') \<Rightarrow> apply_processor_config env cred subject cred_row rest d')"

text \<open>\<open>Subject.objects.get_or_create(source_id=source_id)\<close>.\<close>

definition Subject_get_or_create :: "pyval \<Rightarrow> db \<Rightarrow> (exn + Subject) \<times> db" where
  "Subject_get_or_create sid d =
     (case objects_get ''Subject'' (\<lambda>s. source_id s = sid) (subjects d) of
        Inr subject \<Rightarrow> (Inr subject, d)
      | Inl (DoesNotExist m) \<Rightarrow>
          (let subject = \<lparr> subject_id = next_id (map subject_id (subjects d)),
                           source_id = sid \<rparr>
           in (Inr subject, d\<lparr>subjects := subjects d @ [subject]\<rparr>))
      | Inl e \<Rightarrow> (Inl e, d))"

text \<open>The loop that stores one \<open>Claim\<close> per claim attribute; \<open>getattr\<close> takes a
  string as the attribute name.\<close>

fun create_claims ::
  "env \<Rightarrow> Credential \<Rightarrow> nat \<Rightarrow> pyval list \<Rightarrow> db \<Rightarrow> (exn + unit) \<times> db"
where
  "create_claims env cred cid [] d = (Inr (), d)"
| "create_claims env cred cid (VStr claim_attribute # rest) d =
     (case getattr env cred claim_attribute of
        Inl e \<Rightarrow> (Inl e, d)
      | Inr v \<Rightarrow>
          create_claims env cred cid rest
            (d\<lparr>claims := claims d
                 @ [\<lparr> claim_credential = cid, claim_name = claim_attribute,
                      claim_value = v \<rparr>]\<rparr>))"
| "create_claims env cred cid (claim_attribute # rest) d =
     (Inl (TypeError ''getattr(): attribute name must be string''), d)"

text \<open>An exception leaves the database as it is at that point: the code opens no
  transaction, so the result is paired with the database state in either case.\<close>

definition populate_application_database ::
  "env \<Rightarrow> CredentialManager \<Rightarrow> CredentialType \<Rightarrow> pyval \<Rightarrow> db \<Rightarrow> (exn + nat) \<times> db" where
  "populate_application_database env self credential_type sid d =
     (case Subject_get_or_create sid d of
        (Inl e, d1) \<Rightarrow> (Inl e, d1)
      | (Inr subject, d1) \<Rightarrow>
          let cred_row = \<lparr> credential_id = next_id (map credential_id (credentials d1)),
                           credential_subject = subject_id subject,
                           credential_credential_type = credential_type_id credential_type \<rparr>;
              d2 = d1\<lparr>credentials := credentials d1 @ [cred_row]\<rparr>
          in case create_claims env (credential self) (credential_id cred_row)
                    (priv_claim_attributes (credential self)) d2 of
               (Inl e, d3) \<Rightarrow> (Inl e, d3)
             | (Inr u, d3) \<Rightarrow>
                 (case processor_config credential_type of
                    None \<Rightarrow> (Inr (credential_id cred_row), d3)
                  | Some config \<Rightarrow>
                      if config = [] then (Inr (credential_id cred_row), d3)
                      else (case apply_processor_config env (credential self) subject cred_row
                                   config d3 of
                              (Inl e, d4) \<Rightarrow> (Inl e, d4)
                            | (Inr u, d4) \<Rightarrow> (Inr (credential_id cred_row), d4))))"

definition store :: "env \<Rightarrow> CredentialManager \<Rightarrow> string \<Rightarrow> exn option" where
  "store env self legal_entity_id =
     store_cred env legal_entity_id (json_dumps env (priv_raw (credential self)))
       (json_dumps env (credential_definition_metadata self))"

text \<open>\<open>CredentialManager.process\<close>. The source claim is read into \<open>source_id\<close>, and the
  two calls that follow are given the string literal \<open>"source_id"\<close>, as the source has it.\<close>

definition process :: "env \<Rightarrow> CredentialManager \<Rightarrow> db \<Rightarrow> (exn + nat) \<times> db" where
  "process env self d =
     (let origin_did = key_origin_did (schema_key env (priv_schema_id (credential self)));
          name = key_name (schema_key env (priv_schema_id (credential self)));
          version = key_version (schema_key env (priv_schema_id (credential self)))
      in case objects_get ''Issuer'' (\<lambda>i. issuer_did i = origin_did) (issuers d) of
           Inl e \<Rightarrow>
             (Inl (except_DoesNotExist ''Issuer'' e
                (CredentialException
                  (''Issuer with did '' @ quoted origin_did @ '' does not exist.''))), d)
         | Inr issuer \<Rightarrow>
       (case objects_get ''Schema''
               (\<lambda>s. schema_origin_did s = origin_did \<and> schema_name s = name
                     \<and> schema_version s = version) (schemas d) of
           Inl e \<Rightarrow>
             (Inl (except_DoesNotExist ''Schema'' e
                (CredentialException
                  (''Schema with origin_did'' @ '' '' @ quoted origin_did @ '', name ''
                    @ quoted name @ '', and version '' @ quoted version @ '' ''
                    @ '' does not exist.''))), d)
         | Inr schema \<Rightarrow>
       (case objects_get ''CredentialType''
               (\<lambda>t. ct_schema t = schema_id schema \<and> ct_issuer t = issuer_id issuer)
               (credential_types d) of
           Inl e \<Rightarrow> (Inl e, d)
         | Inr credential_type \<Rightarrow>
       (case getattr env (credential self) (source_claim credential_type) of
           Inl e \<Rightarrow>
             (Inl (except_AttributeError e
                (case py_join '', '' (priv_claim_attributes (credential self)) of
                   Inl e' \<Rightarrow> e'
                 | Inr claim_names \<Rightarrow>
                     CredentialException
                       (''Credential does not contain the configured source_claim ''
                         @ quoted (source_claim credential_type) @ ''. Claims are: ''
                         @ claim_names))), d)
         | Inr sid \<Rightarrow>
       (case populate_application_database env self credential_type (VStr ''source_id'') d of
           (Inl e, d') \<Rightarrow> (Inl e, d')
         | (Inr cid, d') \<Rightarrow>
       (case store env self ''source_id'' of
           Some e \<Rightarrow> (Inl e, d')
         | None \<Rightarrow> (Inr cid, d')))))))"

section \<open>The ingestion scenario\<close>

text \<open>The credential, the configuration and the empty application database of the
  scenario: claims \<open>email\<close> and \<open>legal_name\<close>, source claim \<open>legal_name\<close>, one rule for
  the model \<open>contact\<close> with the field \<open>email\<close> read from the claim \<open>email\<close> and the
  cardinality field \<open>email\<close>.\<close>

definition scenario_env :: env where
  "scenario_env =
     \<lparr> model_columns = (\<lambda>kind. [''email'', ''text'', ''type'']),
       column_accepts = (\<lambda>kind name v. True),
       schema_key = (\<lambda>v. \<lparr> key_origin_did = ''did:sov:ABC'', key_name = ''Test'',
                             key_version = ''1.0'' \<rparr>),
       json_dumps = (\<lambda>v. ''{}''),
       import_module = (\<lambda>path. None),
       store_cred = (\<lambda>legal_entity_id cred metadata. None),
       timezone_now = 100 \<rparr>"

definition scenario_data :: pyval where
  "scenario_data =
     VDict [(''schema_id'', VStr ''did:sov:ABC:2:Test:1.0''),
            (''cred_def_id'', VNone), (''rev_reg_id'', VNone), (''signature'', VNone),
            (''signature_correctness_proof'', VNone), (''rev_reg'', VNone),
            (''witness'', VNone),
            (''values'',
               VDict [(''email'', VDict [(''raw'', VStr ''a@b.com''), (''encoded'', VStr ''1'')]),
                      (''legal_name'', VDict [(''raw'', VStr ''Acme''), (''encoded'', VStr ''2'')])])]"

definition scenario_credential :: Credential where
  "scenario_credential =
     \<lparr> priv_raw = scenario_data,
       priv_schema_id = VStr ''did:sov:ABC:2:Test:1.0'',
       priv_cred_def_id = VNone, priv_rev_reg_id = VNone, priv_signature = VNone,
       priv_signature_correctness_proof = VNone, priv_rev_reg = VNone, priv_witness = VNone,
       priv_claim_attributes = [VStr ''email'', VStr ''legal_name''] \<rparr>"

definition scenario_manager :: CredentialManager where
  "scenario_manager =
     \<lparr> credential = scenario_credential, credential_definition_metadata = VDict [] \<rparr>"

definition scenario_rule :: model_mapper where
  "scenario_rule =
     \<lparr> mm_model = Some ''contact'',
       mm_fields = Some [(''email'', \<lparr> fd_input = Some (VStr ''email''),
                                       fd_from = Some ''claim'', fd_processor = None \<rparr>)],
       mm_cardinality_fields = Some [''email''] \<rparr>"

definition scenario_credential_type :: CredentialType where
  "scenario_credential_type =
     \<lparr> credential_type_id = 1, ct_schema = 1, ct_issuer = 1, source_claim = ''legal_name'',
       processor_config = Some [scenario_rule] \<rparr>"

definition scenario_db :: db where
  "scenario_db =
     \<lparr> issuers = [\<lparr> issuer_id = 1, issuer_did = ''did:sov:ABC'' \<rparr>],
       schemas = [\<lparr> schema_id = 1, schema_origin_did = ''did:sov:ABC'',
                    schema_name = ''Test'', schema_version = ''1.0'' \<rparr>],
       credential_types = [scenario_credential_type],
       subjects = [], credentials = [], claims = [],
       models = (\<lambda>kind. []) \<rparr>"

section \<open>Members and claims of the same name\<close>

text \<open>The names that ordinary attribute lookup resolves on a \<open>Credential\<close>.\<close>

definition Credential_member_names :: "string list" where
  "Credential_member_names =
     [''_raw'', ''_schema_id'', ''_cred_def_id'', ''_rev_reg_id'', ''_signature'',
      ''_signature_correctness_proof'', ''_rev_reg'', ''_witness'', ''_claim_attributes'',
      ''raw'', ''json'', ''origin_did'', ''schema_name'', ''schema_version'',
      ''claim_attributes''] @ inherited_members"

text \<open>A payload with claims named \<open>raw\<close>, \<open>_witness\<close>, \<open>__class__\<close> and
  \<open>email\<close>.\<close>

definition shadow_claims :: "(string \<times> pyval) list" where
  "shadow_claims =
     [(''raw'', VDict [(''raw'', VStr ''claimed''), (''encoded'', VStr ''1'')]),
      (''_witness'', VDict [(''raw'', VStr ''seen''), (''encoded'', VStr ''2'')]),
      (''__class__'', VDict [(''raw'', VStr ''classy''), (''encoded'', VStr ''3'')]),
      (''email'', VDict [(''raw'', VStr ''a@b.com''), (''encoded'', VStr ''4'')])]"

definition shadow_payload :: "(string \<times> pyval) list" where
  "shadow_payload =
     [(''schema_id'', VStr ''ABC:2:Test:1.0''),
      (''cred_def_id'', VStr ''ABC:3:CL:12:tag''), (''rev_reg_id'', VNone),
      (''signature'', VDict [(''p_credential'', VStr ''sig'')]),
      (''signature_correctness_proof'', VDict [(''se'', VStr ''1''), (''c'', VStr ''2'')]),
      (''rev_reg'', VNone), (''witness'', VStr ''omega''),
      (''values'', VDict shadow_claims)]"

definition shadow_credential :: Credential where
  "shadow_credential =
     \<lparr> priv_raw = VDict shadow_payload,
       priv_schema_id = VStr ''ABC:2:Test:1.0'',
       priv_cred_def_id = VStr ''ABC:3:CL:12:tag'', priv_rev_reg_id = VNone,
       priv_signature = VDict [(''p_credential'', VStr ''sig'')],
       priv_signature_correctness_proof = VDict [(''se'', VStr ''1''), (''c'', VStr ''2'')],
       priv_rev_reg = VNone, priv_witness = VStr ''omega'',
       priv_claim_attributes = [VStr ''raw'', VStr ''_witness'', VStr ''__class__'',
                                VStr ''email''] \<rparr>"

section \<open>The pipeline as the specification words it\<close>

text \<open>
  The specification's reading of a processor list: each referenced function is applied
  in the declared order, left to right, to the value the previous one returned; a function
  that raises ends the pipeline. \<open>lookup_function\<close> is the function a dotted name refers
  to.
\<close>

fun apply_in_order :: "(pyval \<Rightarrow> exn + pyval) list \<Rightarrow> pyval \<Rightarrow> exn + pyval" where
  "apply_in_order [] v = Inr v"
| "apply_in_order (f # fs) v = bind_exn (f v) (apply_in_order fs)"

definition lookup_function :: "env \<Rightarrow> string \<Rightarrow> (pyval \<Rightarrow> exn + pyval) option" where
  "lookup_function env function_path_with_name =
     (case rsplit_dot function_path_with_name of
        [function_path, function_name] \<Rightarrow>
          (case import_module env (PROCESSOR_FUNCTION_BASE_PATH @ ''.'' @ function_path) of
             None \<Rightarrow> None
           | Some function_module \<Rightarrow> function_module function_name)
      | _ \<Rightarrow> None)"

text \<open>Two transforms that do not commute, in a module \<open>api_v2.processor.text\<close>.\<close>

definition wrap_list :: "pyval \<Rightarrow> exn + pyval" where
  "wrap_list v = Inr (VList [v])"

definition wrap_dict :: "pyval \<Rightarrow> exn + pyval" where
  "wrap_dict v = Inr (VDict [(''value'', v)])"

definition pipeline_env :: env where
  "pipeline_env =
     scenario_env\<lparr>import_module :=
       (\<lambda>path. if path = ''api_v2.processor.text''
                then Some (\<lambda>name. if name = ''wrap_list'' then Some wrap_list
                                   else if name = ''wrap_dict'' then Some wrap_dict
                                   else None)
                else None)\<rparr>"

definition pipeline_field :: field_data where
  "pipeline_field =
     \<lparr> fd_input = Some (VStr ''x''), fd_from = Some ''value'',
       fd_processor = Some [''text.wrap_list'', ''text.wrap_dict''] \<rparr>"

section \<open>Fields that hold the string \<open>None\<close>\<close>

text \<open>A rule with a literal field \<open>"None"\<close> without transforms, and the same literal
  sent through two transforms that return their argument.\<close>

definition same_value :: "pyval \<Rightarrow> exn + pyval" where
  "same_value v = Inr v"

definition none_env :: env where
  "none_env =
     scenario_env\<lparr>import_module :=
       (\<lambda>path. if path = ''api_v2.processor.text''
                then Some (\<lambda>name. if name = ''same_value'' then Some same_value else None)
                else None)\<rparr>"

definition none_fields :: "(string \<times> field_data) list" where
  "none_fields =
     [(''text'', \<lparr> fd_input = Some (VStr ''None''), fd_from = Some ''value'',
                   fd_processor = None \<rparr>),
      (''type'', \<lparr> fd_input = Some (VStr ''None''), fd_from = Some ''value'',
                   fd_processor = Some [''text.same_value'', ''text.same_value''] \<rparr>),
      (''email'', \<lparr> fd_input = Some (VStr ''email''), fd_from = Some ''claim'',
                    fd_processor = None \<rparr>)]"

section \<open>A cardinality field without a processed value\<close>

text \<open>The subject and the credential row that the first ingestion of the scenario
  creates, and the processed values of the scenario's rule.\<close>

definition scenario_subject :: Subject where
  "scenario_subject = \<lparr> subject_id = 1, source_id = VStr ''source_id'' \<rparr>"

definition scenario_cred_row :: CredentialRow where
  "scenario_cred_row =
     \<lparr> credential_id = 1, credential_subject = 1, credential_credential_type = 1 \<rparr>"


section \<open>Further configurations of the scenario\<close>

text \<open>The scenario's database without its credential type; with a credential type that
  has no processor configuration; and with a rule whose field reads a claim that the
  credential does not have.\<close>

definition unconfigured_db :: db where
  "unconfigured_db = scenario_db\<lparr>credential_types := []\<rparr>"

definition plain_credential_type :: CredentialType where
  "plain_credential_type = scenario_credential_type\<lparr>processor_config := None\<rparr>"

definition plain_db :: db where
  "plain_db = scenario_db\<lparr>credential_types := [plain_credential_type]\<rparr>"

definition phone_field :: field_data where
  "phone_field =
     \<lparr> fd_input = Some (VStr ''phone''), fd_from = Some ''claim'', fd_processor = None \<rparr>"

definition phone_rule :: model_mapper where
  "phone_rule =
     \<lparr> mm_model = Some ''contact'',
       mm_fields = Some [(''text'', phone_field)],
       mm_cardinality_fields = None \<rparr>"

definition phone_db :: db where
  "phone_db =
     scenario_db\<lparr>credential_types :=
       [scenario_credential_type\<lparr>processor_config := Some [phone_rule]\<rparr>]\<rparr>"

section \<open>The proof credential selector (class \<open>ProofManager\<close>)\<close>

text \<open>
  Modelled from the spec: the class \<open>ProofRequest\<close> of \<open>api_v2.indy.proof_request\<close> is
  not among the sources; a proof request is used through its \<open>json\<close> and \<open>dict\<close>
  attributes. The wallet is what \<open>construct_proof_async\<close> calls: the holder's
  \<open>get_creds\<close> and \<open>create_proof\<close>, opened for a source id, and \<open>json.loads\<close>.
\<close>

record ProofRequest =
  pr_json :: string
  pr_dict :: pyval

text \<open>The selection payload: the dictionary \<open>requested_credentials\<close> with its three
  fixed keys. The keys of its parts are whatever the loop stores, so they are values.\<close>

record requested_credentials =
  self_attested_attributes :: "(pyval \<times> pyval) list"
  requested_predicates :: "(pyval \<times> pyval) list"
  requested_attributes :: "(pyval \<times> pyval) list"

record wallet =
  get_creds :: "string \<Rightarrow> string \<Rightarrow> exn + (pyval \<times> string)"
  create_proof :: "string \<Rightarrow> pyval \<Rightarrow> pyval \<Rightarrow> requested_credentials \<Rightarrow> exn + string"
  json_loads :: "string \<Rightarrow> exn + pyval"

record ProofManager =
  pm_source_id :: string
  proof_request :: ProofRequest
  filters :: "(string \<times> string) list"


definition add_filter :: "ProofManager \<Rightarrow> string \<Rightarrow> string \<Rightarrow> ProofManager" where
  "add_filter self claim_name' claim_value' =
     self\<lparr>filters := filters self @ [(claim_name', claim_value')]\<rparr>"

text \<open>A dictionary with any hashable keys: lists and dictionaries are not hashable,
  and \<open>True\<close> and \<open>False\<close> are the keys \<open>1\<close> and \<open>0\<close>. Writing under a key that
  is present keeps the key as it was first written.\<close>

fun hashable :: "pyval \<Rightarrow> bool" where
  "hashable (VList xs) = False"
| "hashable (VDict d) = False"
| "hashable v = True"

fun key_of :: "pyval \<Rightarrow> pyval" where
  "key_of (VBool b) = VInt (if b then 1 else 0)"
| "key_of v = v"

fun pydict_set :: "(pyval \<times> 'v) list \<Rightarrow> pyval \<Rightarrow> 'v \<Rightarrow> (pyval \<times> 'v) list" where
  "pydict_set [] k v = [(k, v)]"
| "pydict_set (p # ps) k v =
     (if key_of (fst p) = key_of k then (fst p, v) # ps else p # pydict_set ps k v)"

text \<open>The loop over the attribute names of the query result. The first statement of its
  body stores an empty dictionary under the name, which has to be hashable.\<close>

fun select_attributes ::
  "pyval \<Rightarrow> pyval list \<Rightarrow> (pyval \<times> pyval) list \<Rightarrow> exn + (pyval \<times> pyval) list"
where
  "select_attributes attrs' [] selected = Inr selected"
| "select_attributes attrs' (claim_name' # rest) selected =
     (if \<not> hashable claim_name' then Inl (TypeError ''unhashable type'')
      else
        bind_exn (getitem attrs' claim_name') (\<lambda>candidates.
        bind_exn (index_item candidates 0) (\<lambda>candidate.
        bind_exn (subscript candidate ''cred_info'') (\<lambda>cred_info.
        bind_exn (subscript cred_info ''referent'') (\<lambda>referent.
          select_attributes attrs' rest
            (pydict_set selected claim_name'
               (VDict (dict_set (dict_set [] ''revealed'' (VBool True))
                         ''cred_id'' referent))))))))"

definition requested_credentials_for :: "pyval \<Rightarrow> exn + requested_credentials" where
  "requested_credentials_for credentials_for_proof_request =
     bind_exn (subscript credentials_for_proof_request ''attrs'') (\<lambda>attrs.
     bind_exn (py_iter attrs) (\<lambda>claim_names.
     bind_exn (select_attributes attrs claim_names []) (\<lambda>selected.
       Inr \<lparr> self_attested_attributes = [],
             requested_predicates = [],
             requested_attributes = selected \<rparr>)))"

definition construct_proof_async :: "wallet \<Rightarrow> ProofManager \<Rightarrow> exn + pyval" where
  "construct_proof_async w self =
     bind_exn (get_creds w (pm_source_id self) (pr_json (proof_request self)))
       (\<lambda>(referents, credentials_json).
     bind_exn (json_loads w credentials_json) (\<lambda>credentials_for_proof_request.
     bind_exn (requested_credentials_for credentials_for_proof_request) (\<lambda>selection.
     bind_exn (create_proof w (pm_source_id self) (pr_dict (proof_request self))
                 credentials_for_proof_request selection) (\<lambda>proof.
       json_loads w proof))))"







section \<open>Current records\<close>







text \<open>The record that an upsert leaves for a matched record \<open>m\<close>: the values of the
  draft written over its columns, the credential added.\<close>

definition overwrite ::
  "(string \<times> pyval) list \<Rightarrow> (string \<times> pyval) list \<Rightarrow> (string \<times> pyval) list" where
  "overwrite draft a =
     fold (\<lambda>k a. case dict_get draft k of Some v \<Rightarrow> dict_set a k v | None \<Rightarrow> a)
       (dict_keys draft) a"








section \<open>Properties\<close>

subsection \<open>Dictionaries\<close>

lemma dict_get_None_iff: "dict_get d k = None \<longleftrightarrow> k \<notin> set (dict_keys d)"
  by (simp add: dict_get_def dict_keys_def map_of_eq_None_iff)

subsection \<open>Attribute access on the decoded credential\<close>

lemma dict_keys_Credential_members:
  "dict_keys (Credential_members env self) = Credential_member_names"
  by (simp add: Credential_members_def Credential_member_names_def dict_keys_def comp_def)

lemma getattr_not_member:
  "name \<notin> set Credential_member_names \<Longrightarrow> getattr env self name = Credential_getattr self name"
  using dict_get_None_iff [of "Credential_members env self" name]
  by (simp add: getattr_def dict_keys_Credential_members)

lemma subscript_Inr_iff: "subscript (VDict d) k = Inr x \<longleftrightarrow> map_of d k = Some x"
  by (simp add: dict_get_def split: option.splits)

lemma Credential_init_fields:
  assumes "Credential_init (VDict payload) = Inr self"
  shows "\<exists>sid cdi rri sg scp rr wt claim_data claim_attributes.
      map_of payload ''schema_id'' = Some sid
    \<and> map_of payload ''cred_def_id'' = Some cdi
    \<and> map_of payload ''rev_reg_id'' = Some rri
    \<and> map_of payload ''signature'' = Some sg
    \<and> map_of payload ''signature_correctness_proof'' = Some scp
    \<and> map_of payload ''rev_reg'' = Some rr
    \<and> map_of payload ''witness'' = Some wt
    \<and> map_of payload ''values'' = Some claim_data
    \<and> py_iter claim_data = Inr claim_attributes
    \<and> self = \<lparr> priv_raw = VDict payload, priv_schema_id = sid, priv_cred_def_id = cdi,
                 priv_rev_reg_id = rri, priv_signature = sg,
                 priv_signature_correctness_proof = scp, priv_rev_reg = rr,
                 priv_witness = wt, priv_claim_attributes = claim_attributes \<rparr>"
proof -
  from assms obtain sid where 1: "subscript (VDict payload) ''schema_id'' = Inr sid"
    by (cases "subscript (VDict payload) ''schema_id''") (simp_all add: Credential_init_def bind_exn_def)
  from assms 1 obtain cdi where 2: "subscript (VDict payload) ''cred_def_id'' = Inr cdi"
    by (cases "subscript (VDict payload) ''cred_def_id''") (simp_all add: Credential_init_def bind_exn_def)
  from assms 1 2 obtain rri where 3: "subscript (VDict payload) ''rev_reg_id'' = Inr rri"
    by (cases "subscript (VDict payload) ''rev_reg_id''") (simp_all add: Credential_init_def bind_exn_def)
  from assms 1 2 3 obtain sg where 4: "subscript (VDict payload) ''signature'' = Inr sg"
    by (cases "subscript (VDict payload) ''signature''") (simp_all add: Credential_init_def bind_exn_def)
  from assms 1 2 3 4 obtain scp
    where 5: "subscript (VDict payload) ''signature_correctness_proof'' = Inr scp"
    by (cases "subscript (VDict payload) ''signature_correctness_proof''")
      (simp_all add: Credential_init_def bind_exn_def)
  from assms 1 2 3 4 5 obtain rr where 6: "subscript (VDict payload) ''rev_reg'' = Inr rr"
    by (cases "subscript (VDict payload) ''rev_reg''") (simp_all add: Credential_init_def bind_exn_def)
  from assms 1 2 3 4 5 6 obtain wt where 7: "subscript (VDict payload) ''witness'' = Inr wt"
    by (cases "subscript (VDict payload) ''witness''") (simp_all add: Credential_init_def bind_exn_def)
  from assms 1 2 3 4 5 6 7 obtain claim_data
    where 8: "subscript (VDict payload) ''values'' = Inr claim_data"
    by (cases "subscript (VDict payload) ''values''") (simp_all add: Credential_init_def bind_exn_def)
  from assms 1 2 3 4 5 6 7 8 obtain claim_attributes
    where 9: "py_iter claim_data = Inr claim_attributes"
    by (cases "py_iter claim_data") (simp_all add: Credential_init_def bind_exn_def)
  from assms 1 2 3 4 5 6 7 8 9
  have "self = \<lparr> priv_raw = VDict payload, priv_schema_id = sid, priv_cred_def_id = cdi,
                 priv_rev_reg_id = rri, priv_signature = sg,
                 priv_signature_correctness_proof = scp, priv_rev_reg = rr,
                 priv_witness = wt, priv_claim_attributes = claim_attributes \<rparr>"
    by (simp add: Credential_init_def bind_exn_def)
  with 1 2 3 4 5 6 7 8 9 show ?thesis
    unfolding subscript_Inr_iff by blast
qed

lemma Credential_init_claim_attributes:
  "Credential_init (VDict payload) = Inr self \<Longrightarrow>
   map_of payload ''values'' = Some (VDict claim_data) \<Longrightarrow>
   priv_claim_attributes self = map VStr (map fst claim_data)"
  using Credential_init_fields [of payload self] by (auto simp: dict_keys_def)

lemma Credential_getattr_claim:
  "priv_raw self = VDict payload \<Longrightarrow> map_of payload ''values'' = Some (VDict claim_data) \<Longrightarrow>
   map_of claim_data name = Some (VDict claim) \<Longrightarrow> map_of claim ''raw'' = Some v \<Longrightarrow>
   Credential_getattr self name = Inr v"
  by (simp add: Credential_getattr_def bind_exn_def dict_get_def)

lemma getattr_inherited:
  "member \<in> set inherited_members \<Longrightarrow> getattr env self member = Inr (VObject member)"
  unfolding inherited_members_def
  by (auto simp: getattr_def Credential_members_def inherited_members_def dict_get_def)

text \<open>
  C10. For a credential decoded from a payload, and a claim of the payload with a raw
  value: the claim is listed in \<open>claim_attributes\<close>, and attribute access gives its raw
  value when its name is none of the names that ordinary lookup resolves. For those
  names access gives the member, whatever the claims hold: \<open>raw\<close> and \<open>_raw\<close> the
  payload, \<open>json\<close> its JSON text, \<open>origin_did\<close>, \<open>schema_name\<close> and \<open>schema_version\<close>
  the parts of the payload's schema identifier, \<open>claim_attributes\<close> and
  \<open>_claim_attributes\<close> the list of claim names, each of \<open>_schema_id\<close>,
  \<open>_cred_def_id\<close>, \<open>_rev_reg_id\<close>, \<open>_signature\<close>, \<open>_signature_correctness_proof\<close>,
  \<open>_rev_reg\<close> and \<open>_witness\<close> the payload's entry of that name without the underscore,
  and an inherited name the object's own attribute.
\<close>

theorem members_shadow_claims:
  assumes "Credential_init (VDict payload) = Inr self"
    and "map_of payload ''values'' = Some (VDict claim_data)"
    and "map_of claim_data name = Some (VDict claim)"
    and "map_of claim ''raw'' = Some v"
  shows "VStr name \<in> set (priv_claim_attributes self)
    \<and> (name \<notin> set Credential_member_names \<longrightarrow> getattr env self name = Inr v)
    \<and> getattr env self ''raw'' = Inr (VDict payload)
    \<and> getattr env self ''_raw'' = Inr (VDict payload)
    \<and> getattr env self ''json'' = Inr (VStr (json_dumps env (VDict payload)))
    \<and> getattr env self ''claim_attributes'' = Inr (VList (map VStr (map fst claim_data)))
    \<and> getattr env self ''_claim_attributes'' = Inr (VList (map VStr (map fst claim_data)))
    \<and> (\<exists>x. map_of payload ''schema_id'' = Some x
          \<and> getattr env self ''_schema_id'' = Inr x
          \<and> getattr env self ''origin_did'' = Inr (VStr (key_origin_did (schema_key env x)))
          \<and> getattr env self ''schema_name'' = Inr (VStr (key_name (schema_key env x)))
          \<and> getattr env self ''schema_version'' = Inr (VStr (key_version (schema_key env x))))
    \<and> (\<exists>x. map_of payload ''cred_def_id'' = Some x
          \<and> getattr env self ''_cred_def_id'' = Inr x)
    \<and> (\<exists>x. map_of payload ''rev_reg_id'' = Some x
          \<and> getattr env self ''_rev_reg_id'' = Inr x)
    \<and> (\<exists>x. map_of payload ''signature'' = Some x
          \<and> getattr env self ''_signature'' = Inr x)
    \<and> (\<exists>x. map_of payload ''signature_correctness_proof'' = Some x
          \<and> getattr env self ''_signature_correctness_proof'' = Inr x)
    \<and> (\<exists>x. map_of payload ''rev_reg'' = Some x
          \<and> getattr env self ''_rev_reg'' = Inr x)
    \<and> (\<exists>x. map_of payload ''witness'' = Some x
          \<and> getattr env self ''_witness'' = Inr x)
    \<and> (\<forall>member \<in> set inherited_members. getattr env self member = Inr (VObject member))"
proof -
  from Credential_init_fields [OF assms(1)] assms(2)
  obtain sid cdi rri sg scp rr wt claim_attributes
    where p: "map_of payload ''schema_id'' = Some sid"
      "map_of payload ''cred_def_id'' = Some cdi"
      "map_of payload ''rev_reg_id'' = Some rri"
      "map_of payload ''signature'' = Some sg"
      "map_of payload ''signature_correctness_proof'' = Some scp"
      "map_of payload ''rev_reg'' = Some rr"
      "map_of payload ''witness'' = Some wt"
    and self: "self = \<lparr> priv_raw = VDict payload, priv_schema_id = sid, priv_cred_def_id = cdi,
                 priv_rev_reg_id = rri, priv_signature = sg,
                 priv_signature_correctness_proof = scp, priv_rev_reg = rr,
                 priv_witness = wt, priv_claim_attributes = claim_attributes \<rparr>"
    by auto
  have attrs: "priv_claim_attributes self = map VStr (map fst claim_data)"
    using assms(1,2) by (rule Credential_init_claim_attributes)
  have "name \<in> fst ` set claim_data"
    using assms(3) by (metis map_of_eq_None_iff option.distinct(1))
  then have 1: "VStr name \<in> set (priv_claim_attributes self)"
    by (auto simp: attrs)
  have 2: "getattr env self name = Inr v" if "name \<notin> set Credential_member_names"
    using that assms(2-4) self
    by (simp add: getattr_not_member Credential_getattr_claim)
  have raw: "getattr env self ''raw'' = Inr (VDict payload)"
    "getattr env self ''_raw'' = Inr (VDict payload)"
    "getattr env self ''json'' = Inr (VStr (json_dumps env (VDict payload)))"
    by (simp_all add: getattr_def Credential_members_def dict_get_def self)
  have ca: "getattr env self ''claim_attributes'' = Inr (VList (map VStr (map fst claim_data)))"
    "getattr env self ''_claim_attributes'' = Inr (VList (map VStr (map fst claim_data)))"
    using attrs by (simp_all add: getattr_def Credential_members_def dict_get_def)
  have sk: "getattr env self ''_schema_id'' = Inr sid"
    "getattr env self ''origin_did'' = Inr (VStr (key_origin_did (schema_key env sid)))"
    "getattr env self ''schema_name'' = Inr (VStr (key_name (schema_key env sid)))"
    "getattr env self ''schema_version'' = Inr (VStr (key_version (schema_key env sid)))"
    by (simp_all add: getattr_def Credential_members_def dict_get_def self)
  have priv: "getattr env self ''_cred_def_id'' = Inr cdi"
    "getattr env self ''_rev_reg_id'' = Inr rri"
    "getattr env self ''_signature'' = Inr sg"
    "getattr env self ''_signature_correctness_proof'' = Inr scp"
    "getattr env self ''_rev_reg'' = Inr rr"
    "getattr env self ''_witness'' = Inr wt"
    by (simp_all add: getattr_def Credential_members_def dict_get_def self)
  have inh: "\<forall>member \<in> set inherited_members. getattr env self member = Inr (VObject member)"
    by (simp add: getattr_inherited)
  from 1 2 raw ca sk priv p inh show ?thesis
    by simp
qed

theorem members_shadow_claims_witness:
  "Credential_init (VDict shadow_payload) = Inr shadow_credential
   \<and> VStr ''_witness'' \<in> set (priv_claim_attributes shadow_credential)
   \<and> Credential_getattr shadow_credential ''_witness'' = Inr (VStr ''seen'')
   \<and> getattr scenario_env shadow_credential ''_witness'' = Inr (VStr ''omega'')
   \<and> Credential_getattr shadow_credential ''raw'' = Inr (VStr ''claimed'')
   \<and> getattr scenario_env shadow_credential ''raw'' = Inr (VDict shadow_payload)
   \<and> Credential_getattr shadow_credential ''__class__'' = Inr (VStr ''classy'')
   \<and> getattr scenario_env shadow_credential ''__class__'' = Inr (VObject ''__class__'')
   \<and> getattr scenario_env shadow_credential ''email'' = Inr (VStr ''a@b.com'')"
proof -
  have h1: "Credential_init (VDict shadow_payload) = Inr shadow_credential"
    by (simp add: Credential_init_def shadow_payload_def shadow_credential_def bind_exn_def
        dict_get_def dict_keys_def shadow_claims_def)
  have h2: "map_of shadow_payload ''values'' = Some (VDict shadow_claims)"
    by (simp add: shadow_payload_def)
  have w3: "map_of shadow_claims ''_witness''
      = Some (VDict [(''raw'', VStr ''seen''), (''encoded'', VStr ''2'')])"
    by (simp add: shadow_claims_def)
  have w4: "map_of [(''raw'', VStr ''seen''), (''encoded'', VStr ''2'')] ''raw''
      = Some (VStr ''seen'')"
    by simp
  have e3: "map_of shadow_claims ''email''
      = Some (VDict [(''raw'', VStr ''a@b.com''), (''encoded'', VStr ''4'')])"
    by (simp add: shadow_claims_def)
  have e4: "map_of [(''raw'', VStr ''a@b.com''), (''encoded'', VStr ''4'')] ''raw''
      = Some (VStr ''a@b.com'')"
    by simp
  have e5: "''email'' \<notin> set Credential_member_names"
    by (simp add: Credential_member_names_def inherited_members_def)
  have m: "map_of shadow_payload ''witness'' = Some (VStr ''omega'')"
    "''__class__'' \<in> set inherited_members"
    by (simp_all add: shadow_payload_def inherited_members_def)
  have c: "Credential_getattr shadow_credential ''_witness'' = Inr (VStr ''seen'')"
    "Credential_getattr shadow_credential ''raw'' = Inr (VStr ''claimed'')"
    "Credential_getattr shadow_credential ''__class__'' = Inr (VStr ''classy'')"
    by (simp_all add: Credential_getattr_def shadow_credential_def shadow_payload_def
        shadow_claims_def bind_exn_def dict_get_def)
  from members_shadow_claims [OF h1 h2 w3 w4, of scenario_env]
    members_shadow_claims [OF h1 h2 e3 e4, of scenario_env] h1 e5 m c
  show ?thesis
    by auto
qed

subsection \<open>The pipeline runs in the declared order\<close>

lemma run_pipeline_snoc:
  "run_pipeline (fs @ [f]) v = bind_exn (f v) (run_pipeline fs)"
  by (subst run_pipeline.simps) (simp add: bind_exn_def split: sum.splits)

lemma run_pipeline_Nil: "run_pipeline [] v = Inr v"
  by (subst run_pipeline.simps) simp

lemma run_pipeline_rev: "run_pipeline (rev fs) v = apply_in_order fs v"
proof (induction fs arbitrary: v)
  case Nil
  show ?case by (simp add: run_pipeline_Nil)
next
  case (Cons f fs)
  have "run_pipeline (rev (f # fs)) v = bind_exn (f v) (run_pipeline (rev fs))"
    by (simp add: run_pipeline_snoc)
  also have "\<dots> = bind_exn (f v) (apply_in_order fs)"
    by (simp add: bind_exn_def Cons.IH split: sum.splits)
  finally show ?case by simp
qed

lemma build_pipeline_resolved:
  "list_all2 (\<lambda>p f. lookup_function env p = Some f) ps fs \<Longrightarrow>
   build_pipeline env ps pipeline = Inr (pipeline @ fs)"
proof (induction ps fs arbitrary: pipeline rule: list_all2_induct)
  case Nil
  show ?case by simp
next
  case (Cons p ps f fs)
  from Cons.hyps(1) obtain function_path function_name function_module
    where "rsplit_dot p = [function_path, function_name]"
      and "import_module env (PROCESSOR_FUNCTION_BASE_PATH @ ''.'' @ function_path)
             = Some function_module"
      and "function_module function_name = Some f"
    by (auto simp: lookup_function_def split: list.splits option.splits)
  then have "build_pipeline env (p # ps) pipeline = build_pipeline env ps (pipeline @ [f])"
    by simp
  then show ?case by (simp add: Cons.IH)
qed

text \<open>
  C4. For a field whose base value is \<open>v\<close> and whose processor names resolve, in the
  order they are listed, to the functions \<open>fs\<close>: the built pipeline is \<open>fs\<close>, the
  reverse-then-pop loop computes what applying \<open>fs\<close> from left to right computes, and so
  does the field's resolved value; for two transforms \<open>[f, g]\<close> it is \<open>g\<close> applied to the
  result of \<open>f v\<close>.
\<close>

theorem pipeline_runs_in_declared_order:
  assumes "base_value env cred field_data = Inr v"
    and "fd_processor field_data = Some processor"
    and "list_all2 (\<lambda>p f. lookup_function env p = Some f) processor fs"
  shows "build_pipeline env processor [] = Inr fs
    \<and> run_pipeline (rev fs) v = apply_in_order fs v
    \<and> field_value env cred field_data = apply_in_order fs v
    \<and> (\<forall>f g. fs = [f, g] \<longrightarrow> field_value env cred field_data = bind_exn (f v) g)"
proof -
  have 1: "build_pipeline env processor [] = Inr fs"
    using build_pipeline_resolved [OF assms(3), of "[]"] by simp
  have 2: "run_pipeline (rev fs) v = apply_in_order fs v"
    by (rule run_pipeline_rev)
  have 3: "field_value env cred field_data = apply_in_order fs v"
    by (simp add: field_value_def assms(1,2) 1 2 bind_exn_def)
  have 4: "field_value env cred field_data = bind_exn (f v) g" if "fs = [f, g]" for f g
    using 3 that by (simp add: bind_exn_def split: sum.splits)
  from 1 2 3 4 show ?thesis by blast
qed

theorem pipeline_runs_in_declared_order_witness:
  "field_value pipeline_env scenario_credential pipeline_field
     = Inr (VDict [(''value'', VList [VStr ''x''])])
   \<and> field_value pipeline_env scenario_credential pipeline_field
     = bind_exn (wrap_list (VStr ''x'')) wrap_dict
   \<and> run_pipeline (rev [wrap_list, wrap_dict]) (VStr ''x'')
     = apply_in_order [wrap_list, wrap_dict] (VStr ''x'')"
proof -
  have h1: "base_value pipeline_env scenario_credential pipeline_field = Inr (VStr ''x'')"
    by (simp add: base_value_def pipeline_field_def)
  have h2: "fd_processor pipeline_field = Some [''text.wrap_list'', ''text.wrap_dict'']"
    by (simp add: pipeline_field_def)
  have r1: "rsplit_dot ''text.wrap_list'' = [''text'', ''wrap_list'']"
    by (simp add: rsplit_dot_def)
  have r2: "rsplit_dot ''text.wrap_dict'' = [''text'', ''wrap_dict'']"
    by (simp add: rsplit_dot_def)
  have h3: "list_all2 (\<lambda>p f. lookup_function pipeline_env p = Some f)
      [''text.wrap_list'', ''text.wrap_dict''] [wrap_list, wrap_dict]"
    by (simp add: lookup_function_def r1 r2 pipeline_env_def PROCESSOR_FUNCTION_BASE_PATH_def)
  from pipeline_runs_in_declared_order [OF h1 h2 h3] show ?thesis
    by (simp add: bind_exn_def wrap_list_def wrap_dict_def)
qed

subsection \<open>Processed values\<close>

lemma dict_get_dict_set:
  "dict_get (dict_set d k v) k' = (if k' = k then Some v else dict_get d k')"
  by (induction d) (auto simp: dict_get_def)



lemma dict_get_store_processed:
  "dict_get (store_processed pv field v) k
     = (if k = field then Some (if v = VStr ''None'' then VNone else v) else dict_get pv k)"
  by (simp add: store_processed_def Let_def dict_get_dict_set)


lemma process_fields_other:
  "process_fields env cred flds pv0 = Inr pv \<Longrightarrow> k \<notin> fst ` set flds \<Longrightarrow>
   dict_get pv k = dict_get pv0 k"
proof (induction flds arbitrary: pv0)
  case Nil
  then show ?case by simp
next
  case (Cons p flds)
  obtain field fd where p: "p = (field, fd)" by (cases p)
  from Cons.prems(1) p obtain v where v: "field_value env cred fd = Inr v"
    and rest: "process_fields env cred flds (store_processed pv0 field v) = Inr pv"
    by (auto split: sum.splits)
  from Cons.prems(2) p have "k \<noteq> field" "k \<notin> fst ` set flds" by auto
  with Cons.IH [OF rest] show ?case by (simp add: dict_get_store_processed)
qed

lemma process_fields_field:
  "process_fields env cred flds pv0 = Inr pv \<Longrightarrow> distinct (map fst flds) \<Longrightarrow>
   (field, fd) \<in> set flds \<Longrightarrow>
   \<exists>v. field_value env cred fd = Inr v
     \<and> dict_get pv field = Some (if v = VStr ''None'' then VNone else v)"
proof (induction flds arbitrary: pv0)
  case Nil
  then show ?case by simp
next
  case (Cons p flds)
  obtain field' fd' where p: "p = (field', fd')" by (cases p)
  from Cons.prems(1) p obtain v where v: "field_value env cred fd' = Inr v"
    and rest: "process_fields env cred flds (store_processed pv0 field' v) = Inr pv"
    by (auto split: sum.splits)
  show ?case
  proof (cases "(field, fd) = (field', fd')")
    case True
    with Cons.prems(2) p have "field \<notin> fst ` set flds" by auto
    from process_fields_other [OF rest this] True v show ?thesis
      by (auto simp: dict_get_store_processed)
  next
    case False
    with Cons.prems(3) p have "(field, fd) \<in> set flds" by auto
    moreover from Cons.prems(2) have "distinct (map fst flds)" by simp
    ultimately show ?thesis using Cons.IH [OF rest] by blast
  qed
qed


lemma dict_get_fold_write:
  "dict_get (fold (\<lambda>k a. case dict_get pv k of Some v \<Rightarrow> dict_set a k v | None \<Rightarrow> a) ks a) k
     = (if k \<in> set ks \<and> dict_get pv k \<noteq> None then dict_get pv k else dict_get a k)"
  by (induction ks arbitrary: a) (auto simp: dict_get_dict_set split: option.splits)

lemma dict_get_overwrite:
  "dict_get (overwrite pv a) k
     = (if k \<in> set (dict_keys pv) then dict_get pv k else dict_get a k)"
  using dict_get_None_iff [of pv k] by (simp add: overwrite_def dict_get_fold_write)

lemma setattr_all_columns:
  assumes "\<forall>k \<in> set ks. k \<in> set (dict_keys pv)"
    and "\<forall>k \<in> set ks. is_column env kind k \<and> k \<noteq> ''pk'' \<and> k \<noteq> ''credentials''"
  shows "setattr_all env kind pv ks model
    = Inr (model\<lparr>inst_attrs :=
        fold (\<lambda>k a. case dict_get pv k of Some v \<Rightarrow> dict_set a k v | None \<Rightarrow> a) ks
          (inst_attrs model)\<rparr>)"
  using assms
proof (induction ks arbitrary: model)
  case Nil
  show ?case by simp
next
  case (Cons k ks)
  from Cons.prems(1) obtain v where v: "dict_get pv k = Some v"
    using dict_get_None_iff [of pv k] by auto
  from Cons.prems(2) have col: "is_column env kind k" "k \<noteq> ''pk''" "k \<noteq> ''credentials''"
    by simp_all
  then have "setattr_model env kind model k v
      = Inr (model\<lparr>inst_attrs := dict_set (inst_attrs model) k v\<rparr>)"
    by (simp add: setattr_model_def)
  with v Cons.IH [of "model\<lparr>inst_attrs := dict_set (inst_attrs model) k v\<rparr>"] Cons.prems
  show ?case by simp
qed

lemma setattr_all_overwrite:
  assumes "list_all (\<lambda>k. is_column env kind k \<and> k \<noteq> ''pk'' \<and> k \<noteq> ''credentials'')
             (dict_keys pv)"
  shows "setattr_all env kind pv (dict_keys pv) model
    = Inr (model\<lparr>inst_attrs := overwrite pv (inst_attrs model)\<rparr>)"
  using assms setattr_all_columns [of "dict_keys pv" pv env kind model]
  by (simp add: list_all_iff overwrite_def)

text \<open>
  C5. When the fields of a rule have been processed, the processed value of every field
  is the value its pipeline returned (for a field without transforms, its base value),
  except that the string \<open>"None"\<close> has become \<open>None\<close>; and when the fields are columns
  of the record kind, that is also the value which the loop of \<open>setattr\<close> leaves in the
  column of the record.
\<close>

theorem none_string_is_stored_as_null:
  assumes "process_fields env cred flds [] = Inr processed_values"
    and "distinct (map fst flds)"
    and "(field, fd) \<in> set flds"
  shows "\<exists>v. field_value env cred fd = Inr v
     \<and> dict_get processed_values field = Some (if v = VStr ''None'' then VNone else v)
     \<and> (list_all (\<lambda>k. is_column env kind k \<and> k \<noteq> ''pk'' \<and> k \<noteq> ''credentials'')
           (dict_keys processed_values)
         \<longrightarrow> (\<exists>model'. setattr_all env kind processed_values (dict_keys processed_values) model
                          = Inr model'
                \<and> dict_get (inst_attrs model') field
                    = Some (if v = VStr ''None'' then VNone else v)))"
proof -
  from process_fields_field [OF assms] obtain v where v: "field_value env cred fd = Inr v"
    and get: "dict_get processed_values field = Some (if v = VStr ''None'' then VNone else v)"
    by blast
  from get have "field \<in> set (dict_keys processed_values)"
    using dict_get_None_iff [of processed_values field] by auto
  with get have "dict_get (overwrite processed_values (inst_attrs model)) field
         = Some (if v = VStr ''None'' then VNone else v)"
    by (simp add: dict_get_overwrite)
  then have "\<exists>model'. setattr_all env kind processed_values (dict_keys processed_values) model
                          = Inr model'
                \<and> dict_get (inst_attrs model') field
                    = Some (if v = VStr ''None'' then VNone else v)"
    if "list_all (\<lambda>k. is_column env kind k \<and> k \<noteq> ''pk'' \<and> k \<noteq> ''credentials'')
           (dict_keys processed_values)"
    using setattr_all_overwrite [OF that, of model] by simp
  with v get show ?thesis by blast
qed

theorem none_string_is_stored_as_null_witness:
  "process_fields none_env scenario_credential none_fields []
     = Inr [(''text'', VNone), (''type'', VNone), (''email'', VStr ''a@b.com'')]
   \<and> field_value none_env scenario_credential (snd (none_fields ! 1)) = Inr (VStr ''None'')
   \<and> dict_get [(''text'', VNone), (''type'', VNone), (''email'', VStr ''a@b.com'')] ''type''
       = Some VNone
   \<and> map_option inst_attrs (case setattr_all none_env Contact
          [(''text'', VNone), (''type'', VNone), (''email'', VStr ''a@b.com'')]
          [''text'', ''type'', ''email''] Model_new of Inr model' \<Rightarrow> Some model' | Inl e \<Rightarrow> None)
       = Some [(''id'', VNone), (''end_date'', VNone), (''text'', VNone), (''type'', VNone),
               (''email'', VStr ''a@b.com'')]"
proof -
  have h1: "process_fields none_env scenario_credential none_fields []
     = Inr [(''text'', VNone), (''type'', VNone), (''email'', VStr ''a@b.com'')]"
    by code_simp
  have h2: "distinct (map fst none_fields)"
    by (simp add: none_fields_def)
  have h3: "(''type'', snd (none_fields ! 1)) \<in> set none_fields"
    by (simp add: none_fields_def)
  have h4: "field_value none_env scenario_credential (snd (none_fields ! 1)) = Inr (VStr ''None'')"
    by code_simp
  have h5: "map_option inst_attrs (case setattr_all none_env Contact
          [(''text'', VNone), (''type'', VNone), (''email'', VStr ''a@b.com'')]
          [''text'', ''type'', ''email''] Model_new of Inr model' \<Rightarrow> Some model' | Inl e \<Rightarrow> None)
       = Some [(''id'', VNone), (''end_date'', VNone), (''text'', VNone), (''type'', VNone),
               (''email'', VStr ''a@b.com'')]"
    by code_simp
  from none_string_is_stored_as_null [OF h1 h2 h3, of Contact Model_new] h1 h4 h5 show ?thesis
    by (simp add: dict_get_def)
qed

subsection \<open>Cardinality fields and processed values\<close>











subsection \<open>The ingestion scenario, evaluated\<close>

text \<open>
  C1. The first ingestion of the scenario's credential succeeds and creates one
  credential, two claims and one current \<open>contact\<close> record with the email of the
  credential. The source claim \<open>legal_name\<close> reads \<open>Acme\<close>, and the subject that is
  created has the source identifier \<open>source_id\<close>: \<open>process\<close> passes that string literal
  on, not the value it has read.
\<close>

theorem scenario_subject_has_literal_source_id:
  "getattr scenario_env scenario_credential ''legal_name'' = Inr (VStr ''Acme'')
   \<and> fst (process scenario_env scenario_manager scenario_db) = Inr 1
   \<and> subjects (snd (process scenario_env scenario_manager scenario_db))
       = [\<lparr> subject_id = 1, source_id = VStr ''source_id'' \<rparr>]
   \<and> credentials (snd (process scenario_env scenario_manager scenario_db))
       = [\<lparr> credential_id = 1, credential_subject = 1, credential_credential_type = 1 \<rparr>]
   \<and> claims (snd (process scenario_env scenario_manager scenario_db))
       = [\<lparr> claim_credential = 1, claim_name = ''email'', claim_value = VStr ''a@b.com'' \<rparr>,
          \<lparr> claim_credential = 1, claim_name = ''legal_name'', claim_value = VStr ''Acme'' \<rparr>]
   \<and> models (snd (process scenario_env scenario_manager scenario_db)) Contact
       = [\<lparr> attrs = [(''id'', VInt 1), (''end_date'', VNone), (''email'', VStr ''a@b.com''),
                      (''create_timestamp'', VTime 100)],
            row_credentials = [1] \<rparr>]"
  by code_simp

text \<open>
  C2. With the issuer and the schema of the scenario and no credential type that links
  them, \<open>process\<close> ends with \<open>DoesNotExist\<close> of \<open>CredentialType\<close>, which is not a
  \<open>CredentialException\<close>, and stores no credential. Without the issuer, or without the
  schema, it ends with a \<open>CredentialException\<close>.
\<close>

theorem unconfigured_credential_type_raises_DoesNotExist:
  "fst (process scenario_env scenario_manager unconfigured_db)
     = Inl (DoesNotExist ''CredentialType'')
   \<and> credentials (snd (process scenario_env scenario_manager unconfigured_db)) = []
   \<and> fst (process scenario_env scenario_manager (unconfigured_db\<lparr>issuers := []\<rparr>))
     = Inl (CredentialException
         (''Issuer with did '' @ quoted ''did:sov:ABC'' @ '' does not exist.''))
   \<and> fst (process scenario_env scenario_manager (unconfigured_db\<lparr>schemas := []\<rparr>))
     = Inl (CredentialException
         (''Schema with origin_did '' @ quoted ''did:sov:ABC'' @ '', name '' @ quoted ''Test''
           @ '', and version '' @ quoted ''1.0'' @ ''  does not exist.''))"
  by code_simp

text \<open>
  C3. A field that reads the claim \<open>phone\<close>, which the scenario's credential does not
  have: resolving its base value ends with \<open>AttributeError\<close>, and so does \<open>process\<close>;
  no handler turns it into a \<open>CredentialException\<close>. The same field with
  \<open>from = value\<close> has its literal input as base value.
\<close>

theorem missing_field_claim_raises_AttributeError:
  "base_value scenario_env scenario_credential phone_field
     = Inl (AttributeError
         (quoted ''Credential'' @ '' object has no attribute '' @ quoted ''phone''))
   \<and> fst (process scenario_env scenario_manager phone_db)
     = Inl (AttributeError
         (quoted ''Credential'' @ '' object has no attribute '' @ quoted ''phone''))
   \<and> base_value scenario_env scenario_credential
        (phone_field\<lparr>fd_from := Some ''value''\<rparr>) = Inr (VStr ''phone'')"
  by code_simp

subsection \<open>A credential type without processor configuration\<close>

lemma Subject_get_or_create_frame:
  "Subject_get_or_create sid d = (r, d1) \<Longrightarrow>
   credentials d1 = credentials d \<and> claims d1 = claims d \<and> models d1 = models d
   \<and> issuers d1 = issuers d \<and> schemas d1 = schemas d
   \<and> credential_types d1 = credential_types d"
  by (auto simp: Subject_get_or_create_def Let_def split: sum.splits exn.splits)

lemma py_getattr_Inr:
  "py_getattr env cred a = Inr v \<Longrightarrow> \<exists>name. a = VStr name \<and> getattr env cred name = Inr v"
  by (cases a) (simp_all add: py_getattr_def)

lemma create_claims_readable:
  "\<forall>a \<in> set as. \<exists>v. py_getattr env cred a = Inr v \<Longrightarrow>
   \<exists>new_claims. create_claims env cred cid as d = (Inr (), d\<lparr>claims := claims d @ new_claims\<rparr>)
     \<and> list_all2 (\<lambda>a c. claim_credential c = cid \<and> a = VStr (claim_name c)
                        \<and> py_getattr env cred a = Inr (claim_value c)) as new_claims"
proof (induction as arbitrary: d)
  case Nil
  show ?case by simp
next
  case (Cons a as)
  from Cons.prems obtain v where pv: "py_getattr env cred a = Inr v" by auto
  from py_getattr_Inr [OF pv] obtain name where a: "a = VStr name"
    and v: "getattr env cred name = Inr v"
    by blast
  let ?c = "\<lparr> claim_credential = cid, claim_name = name, claim_value = v \<rparr>"
  let ?d = "d\<lparr>claims := claims d @ [?c]\<rparr>"
  from Cons.prems have "\<forall>a \<in> set as. \<exists>v. py_getattr env cred a = Inr v" by simp
  from Cons.IH [OF this, of ?d] obtain new_claims
    where run: "create_claims env cred cid as ?d = (Inr (), ?d\<lparr>claims := claims ?d @ new_claims\<rparr>)"
      and all: "list_all2 (\<lambda>a c. claim_credential c = cid \<and> a = VStr (claim_name c)
                        \<and> py_getattr env cred a = Inr (claim_value c)) as new_claims"
    by blast
  have "create_claims env cred cid (a # as) d = (Inr (), d\<lparr>claims := claims d @ ?c # new_claims\<rparr>)"
    using a v run by simp
  moreover have "list_all2 (\<lambda>a c. claim_credential c = cid \<and> a = VStr (claim_name c)
                        \<and> py_getattr env cred a = Inr (claim_value c)) (a # as) (?c # new_claims)"
    using a pv all by simp
  ultimately show ?case by blast
qed

text \<open>
  C8. For a credential type whose processor configuration is absent or empty, a subject
  that resolves and claim attributes that can all be read: ingestion appends exactly one
  credential row, owned by the resolved subject, and one claim per claim attribute, each
  with the value that attribute access gives; the tables of the four record kinds are
  those of the database before (the loop over the rules is not entered).
\<close>

theorem no_processor_config_no_records:
  assumes "processor_config credential_type = None \<or> processor_config credential_type = Some []"
    and "Subject_get_or_create sid d = (Inr subject, d1)"
    and "\<forall>a \<in> set (priv_claim_attributes (credential self)).
           \<exists>v. py_getattr env (credential self) a = Inr v"
  shows "\<exists>new_claims.
      populate_application_database env self credential_type sid d
        = (Inr (next_id (map credential_id (credentials d))),
           d1\<lparr>credentials := credentials d
                  @ [\<lparr> credential_id = next_id (map credential_id (credentials d)),
                       credential_subject = subject_id subject,
                       credential_credential_type = credential_type_id credential_type \<rparr>],
               claims := claims d @ new_claims\<rparr>)
      \<and> list_all2 (\<lambda>a c. claim_credential c = next_id (map credential_id (credentials d))
                          \<and> a = VStr (claim_name c)
                          \<and> py_getattr env (credential self) a = Inr (claim_value c))
            (priv_claim_attributes (credential self)) new_claims
      \<and> models d1 = models d
      \<and> models (snd (populate_application_database env self credential_type sid d)) = models d"
proof -
  let ?cid = "next_id (map credential_id (credentials d))"
  let ?row = "\<lparr> credential_id = ?cid, credential_subject = subject_id subject,
                 credential_credential_type = credential_type_id credential_type \<rparr>"
  let ?d2 = "d1\<lparr>credentials := credentials d1 @ [?row]\<rparr>"
  from Subject_get_or_create_frame [OF assms(2)]
  have frame: "credentials d1 = credentials d" "claims d1 = claims d" "models d1 = models d"
    by simp_all
  from create_claims_readable [OF assms(3), of ?cid ?d2] obtain new_claims
    where run: "create_claims env (credential self) ?cid
                  (priv_claim_attributes (credential self)) ?d2
                = (Inr (), ?d2\<lparr>claims := claims ?d2 @ new_claims\<rparr>)"
      and all: "list_all2 (\<lambda>a c. claim_credential c = ?cid \<and> a = VStr (claim_name c)
                          \<and> py_getattr env (credential self) a = Inr (claim_value c))
            (priv_claim_attributes (credential self)) new_claims"
    by blast
  have res: "populate_application_database env self credential_type sid d
        = (Inr ?cid, d1\<lparr>credentials := credentials d @ [?row], claims := claims d @ new_claims\<rparr>)"
    using assms(1,2) run frame
    by (auto simp: populate_application_database_def Let_def)
  then have "models (snd (populate_application_database env self credential_type sid d))
      = models d"
    by (simp add: frame)
  with res all frame show ?thesis by blast
qed

theorem no_processor_config_no_records_witness:
  "processor_config plain_credential_type = None
   \<and> Subject_get_or_create (VStr ''source_id'') plain_db
       = (Inr scenario_subject, plain_db\<lparr>subjects := [scenario_subject]\<rparr>)
   \<and> fst (populate_application_database scenario_env scenario_manager plain_credential_type
           (VStr ''source_id'') plain_db) = Inr 1
   \<and> credentials (snd (process scenario_env scenario_manager plain_db)) = [scenario_cred_row]
   \<and> map claim_name (claims (snd (process scenario_env scenario_manager plain_db)))
       = [''email'', ''legal_name'']
   \<and> models (snd (populate_application_database scenario_env scenario_manager
           plain_credential_type (VStr ''source_id'') plain_db)) = (\<lambda>kind. [])"
proof -
  have h1: "processor_config plain_credential_type = None
      \<or> processor_config plain_credential_type = Some []"
    by (simp add: plain_credential_type_def)
  have h2: "Subject_get_or_create (VStr ''source_id'') plain_db
       = (Inr scenario_subject, plain_db\<lparr>subjects := [scenario_subject]\<rparr>)"
    by (simp add: Subject_get_or_create_def plain_db_def scenario_db_def objects_get_def
        next_id_def scenario_subject_def Let_def)
  have h3: "\<forall>a \<in> set (priv_claim_attributes (credential scenario_manager)).
           \<exists>v. py_getattr scenario_env (credential scenario_manager) a = Inr v"
    by (simp add: scenario_manager_def scenario_credential_def scenario_data_def getattr_def
        py_getattr_def Credential_members_def inherited_members_def Credential_getattr_def
        bind_exn_def dict_get_def)
  have h4: "credentials (snd (process scenario_env scenario_manager plain_db))
      = [scenario_cred_row]"
    by code_simp
  have h5: "map claim_name (claims (snd (process scenario_env scenario_manager plain_db)))
       = [''email'', ''legal_name'']"
    by code_simp
  have h6: "models plain_db = (\<lambda>kind. [])" "credentials plain_db = []"
    by (simp_all add: plain_db_def scenario_db_def)
  from no_processor_config_no_records [OF h1 h2 h3] h2 h4 h5 h6
  show ?thesis
    by (auto simp: plain_credential_type_def next_id_def)
qed

subsection \<open>The selection payload\<close>







lemma add_filter_ignored:
  "construct_proof_async w (add_filter self name v) = construct_proof_async w self"
  by (simp add: construct_proof_async_def add_filter_def)

subsection \<open>The query arguments and current records\<close>













subsection \<open>The two branches of the upsert\<close>

















subsection \<open>One current record after an upsert\<close>







end
